theory Spec2Isabelle
  imports Complex_Main
begin

section \<open>Numbers, errors and library functions\<close>

text \<open>
  The simulator computes with IEEE doubles. They are idealised here as the reals, so
  rounding, overflow and signed zeros are outside the model. What the model keeps are the
  places where the program leaves the finite numbers:
  \<^item> \<open>ZeroDivisionError\<close>: Python's own float division by zero raises;
  \<^item> \<open>FloatingPointError\<close>: a numpy division by zero does not raise, it yields
    \<open>inf\<close> or \<open>nan\<close> under a RuntimeWarning; no real number stands for that value,
    so the model stops there with this tag;
  \<^item> \<open>ValueError\<close>: \<open>math.asin\<close> outside \<open>[-1, 1]\<close> raises.
\<close>

datatype error = ZeroDivisionError | FloatingPointError | ValueError

type_synonym point = "real \<times> real"

text \<open>\<open>a / b\<close> on two Python floats.\<close>

definition truediv :: "real \<Rightarrow> real \<Rightarrow> error + real" where
  "truediv a b = (if b = 0 then Inl ZeroDivisionError else Inr (a / b))"

text \<open>\<open>a / b\<close> where an operand is a numpy scalar or array.\<close>

definition np_divide :: "real \<Rightarrow> real \<Rightarrow> error + real" where
  "np_divide a b = (if b = 0 then Inl FloatingPointError else Inr (a / b))"

text \<open>\<open>math.atan2(y, x)\<close>: the angle of the point \<open>(x, y)\<close> in \<open>(-pi, pi]\<close>.\<close>

definition atan2 :: "real \<Rightarrow> real \<Rightarrow> real" where
  "atan2 y x =
     (if 0 < x then arctan (y / x)
      else if x < 0 then (if 0 \<le> y then arctan (y / x) + pi else arctan (y / x) - pi)
      else if 0 < y then pi / 2
      else if y < 0 then - (pi / 2)
      else 0)"

text \<open>\<open>np.clip(v, lo, hi)\<close> is \<open>minimum(maximum(v, lo), hi)\<close>.\<close>

definition clip :: "real \<Rightarrow> real \<Rightarrow> real \<Rightarrow> real" where
  "clip v lo hi = min (max v lo) hi"

text \<open>\<open>math.asin\<close>, with its domain check.\<close>

definition asin :: "real \<Rightarrow> error + real" where
  "asin v = (if - 1 \<le> v \<and> v \<le> 1 then Inr (arcsin v) else Inl ValueError)"

section \<open>The simulator\<close>

record PathSimulator =
  speed_of_light :: real
  refractive_index_1 :: real
  refractive_index_2 :: real
  point_a :: point
  point_b :: point
  interface_y :: real
  plane_size :: point

text \<open>
  \<open>PathSimulator.__init__\<close>. The two refractive indices are quotients of Python floats;
  nothing else is checked.
\<close>

definition init ::
  "real \<Rightarrow> real \<Rightarrow> real \<Rightarrow> point \<Rightarrow> point \<Rightarrow> real \<Rightarrow> point \<Rightarrow> error + PathSimulator" where
  "init c material_velocity_1 material_velocity_2 a b iy ps =
     (case truediv c material_velocity_1 of
        Inl e \<Rightarrow> Inl e
      | Inr n1 \<Rightarrow>
          (case truediv c material_velocity_2 of
             Inl e \<Rightarrow> Inl e
           | Inr n2 \<Rightarrow>
               Inr \<lparr>speed_of_light = c, refractive_index_1 = n1, refractive_index_2 = n2,
                    point_a = a, point_b = b, interface_y = iy, plane_size = ps\<rparr>))"

definition calculate_distance_and_incidence_angle :: "PathSimulator \<Rightarrow> real \<Rightarrow> real \<times> real" where
  "calculate_distance_and_incidence_angle sim x_interface =
     (let dx = x_interface - fst (point_a sim);
          dy = interface_y sim - snd (point_a sim);
          distance_1 = sqrt (dx\<^sup>2 + dy\<^sup>2);
          incidence_angle = atan2 dy dx
      in (distance_1, incidence_angle))"

text \<open>
  \<open>time_to_travel\<close>: both distances are numpy values, so the two divisions by the
  reference speed are numpy divisions.
\<close>

definition time_to_travel :: "PathSimulator \<Rightarrow> real \<Rightarrow> error + real" where
  "time_to_travel sim x_interface =
     (let (distance_1, incidence_angle) = calculate_distance_and_incidence_angle sim x_interface;
          segment_1 = distance_1;
          segment_2 = sqrt ((fst (point_b sim) - x_interface)\<^sup>2
                            + (snd (point_b sim) - interface_y sim)\<^sup>2)
      in case np_divide segment_1 (speed_of_light sim) of
           Inl e \<Rightarrow> Inl e
         | Inr q1 \<Rightarrow>
             (case np_divide segment_2 (speed_of_light sim) of
                Inl e \<Rightarrow> Inl e
              | Inr q2 \<Rightarrow>
                  (let time_material_1 = q1 * refractive_index_1 sim;
                       time_material_2 = q2 * refractive_index_2 sim
                   in Inr (time_material_1 + time_material_2))))"

subsection \<open>The optimizer\<close>

text \<open>
  \<open>scipy.optimize.minimize\<close> is a library, not code of the simulator: it is a parameter
  of the model. It receives the objective, the start \<open>x0\<close> and the one pair of bounds,
  and answers with an \<open>OptimizeResult\<close>. Since \<open>x0\<close> is a scalar, \<open>res.x\<close> has one
  entry; \<open>res_x\<close> is that entry, \<open>res_success\<close> is \<open>res.success\<close>.
\<close>

record OptimizeResult =
  res_x :: real
  res_success :: bool

type_synonym minimizer = "(real \<Rightarrow> error + real) \<Rightarrow> real \<Rightarrow> real \<times> real \<Rightarrow> OptimizeResult"

definition calculate_optimal_path :: "minimizer \<Rightarrow> PathSimulator \<Rightarrow> real" where
  "calculate_optimal_path minimize sim =
     (let min_x = min (fst (point_a sim)) (fst (point_b sim));
          max_x = max (fst (point_a sim)) (fst (point_b sim));
          bounds_x = (min_x, max_x);
          x0 = fst (point_a sim);
          res = minimize (time_to_travel sim) x0 bounds_x
      in res_x res)"

subsection \<open>The path\<close>

text \<open>Lines 141 to 144 of \<open>calculate_path\<close>: the refraction angle, by Snell's law.\<close>

definition refraction_angle :: "PathSimulator \<Rightarrow> real \<Rightarrow> error + real" where
  "refraction_angle sim incidence_angle =
     (let sine_incidence = sin incidence_angle
      in case truediv (refractive_index_1 sim) (refractive_index_2 sim) of
           Inl e \<Rightarrow> Inl e
         | Inr ratio \<Rightarrow>
             (let sine_refraction = ratio * sine_incidence;
                  sine_refraction = clip sine_refraction (- 1) 1
              in asin sine_refraction))"

text \<open>
  Lines 154 to 159: the direction of the segment from the crossing point to B. The slope
  is a numpy quotient, as the crossing abscissa is a numpy scalar; \<open>np.sign\<close> is
  \<open>sgn\<close>.
\<close>

definition angle_to_horizontal :: "PathSimulator \<Rightarrow> real \<Rightarrow> error + real" where
  "angle_to_horizontal sim x_interface_optimal =
     (if fst (point_b sim) \<noteq> x_interface_optimal then
        (case np_divide (snd (point_b sim) - interface_y sim)
                        (fst (point_b sim) - x_interface_optimal) of
           Inl e \<Rightarrow> Inl e
         | Inr slope \<Rightarrow> Inr (arctan slope))
      else Inr (pi / 2 * sgn (snd (point_b sim) - interface_y sim)))"

definition calculate_path :: "minimizer \<Rightarrow> PathSimulator \<Rightarrow> error + point list" where
  "calculate_path minimize sim =
     (let x_interface_optimal = calculate_optimal_path minimize sim;
          (distance_1, incidence_angle) =
             calculate_distance_and_incidence_angle sim x_interface_optimal
      in case refraction_angle sim incidence_angle of
           Inl e \<Rightarrow> Inl e
         | Inr refraction \<Rightarrow>
             (let x_incidence = fst (point_a sim) + distance_1 * cos incidence_angle;
                  y_incidence = snd (point_a sim) + distance_1 * sin incidence_angle;
                  segment_2 = sqrt ((fst (point_b sim) - x_interface_optimal)\<^sup>2
                                    + (snd (point_b sim) - interface_y sim)\<^sup>2)
              in case angle_to_horizontal sim x_interface_optimal of
                   Inl e \<Rightarrow> Inl e
                 | Inr angle \<Rightarrow>
                     (let x_refraction = x_interface_optimal + segment_2 * cos angle;
                          y_refraction = interface_y sim + segment_2 * sin angle;
                          path_segment_1 = [point_a sim, (x_incidence, interface_y sim)];
                          path_segment_2 = [(x_refraction, y_refraction), point_b sim]
                      in Inr (path_segment_1 @ path_segment_2))))"

text \<open>
  Stand-ins for the optimizer in the examples below: one that answers a given abscissa
  with a given convergence flag whatever it is asked.
\<close>

definition fixed_answer :: "real \<Rightarrow> bool \<Rightarrow> minimizer" where
  "fixed_answer r ok f x0 bounds = \<lparr>res_x = r, res_success = ok\<rparr>"

definition start_clipped :: minimizer where
  "start_clipped f x0 bounds =
     \<lparr>res_x = clip x0 (fst bounds) (snd bounds), res_success = False\<rparr>"

text \<open>
  What the theorems below ask of the optimizer, where they ask anything. A bounded
  minimizer keeps its answer inside well-formed bounds; an exact one answers a point of
  the bounds where the objective is finite and least.
\<close>

definition respects_bounds :: "minimizer \<Rightarrow> bool" where
  "respects_bounds minimize =
     (\<forall>f x0 lo hi. lo \<le> hi \<longrightarrow>
        lo \<le> res_x (minimize f x0 (lo, hi)) \<and> res_x (minimize f x0 (lo, hi)) \<le> hi)"

definition exact_minimum :: "(real \<Rightarrow> error + real) \<Rightarrow> real \<times> real \<Rightarrow> real \<Rightarrow> bool" where
  "exact_minimum f bounds r =
     (fst bounds \<le> r \<and> r \<le> snd bounds \<and>
      (\<exists>t. f r = Inr t \<and>
         (\<forall>y u. fst bounds \<le> y \<and> y \<le> snd bounds \<and> f y = Inr u \<longrightarrow> t \<le> u)))"

subsection \<open>The script\<close>

text \<open>
  \<open>main.py\<close>, lines 21 to 23, without the animation: the simulator is built from the
  configuration and asked for its path.
\<close>

definition main_py ::
  "minimizer \<Rightarrow> real \<Rightarrow> real \<Rightarrow> real \<Rightarrow> point \<Rightarrow> point \<Rightarrow> real \<Rightarrow> point \<Rightarrow> error + point list" where
  "main_py minimize c material_velocity_1 material_velocity_2 a b iy ps =
     (case init c material_velocity_1 material_velocity_2 a b iy ps of
        Inl e \<Rightarrow> Inl e
      | Inr simulator \<Rightarrow> calculate_path minimize simulator)"

subsection \<open>Example configurations\<close>

text \<open>
  The configuration of the specification's first test: A above and B below the interface
  \<open>y = 0\<close>, mirror images about the point \<open>(5, 0)\<close>, both media at speed 2 under
  the reference speed 3.
\<close>

abbreviation symmetric_example :: PathSimulator where
  "symmetric_example \<equiv>
     \<lparr>speed_of_light = 3, refractive_index_1 = 3 / 2, refractive_index_2 = 3 / 2,
      point_a = (0, 10), point_b = (10, - 10), interface_y = 0, plane_size = (20, 20)\<rparr>"

section \<open>Projections along an angle\<close>

text \<open>
  Going the length of a segment along its own direction angle arrives at its end: the
  facts of trigonometry behind \<open>calculate_path\<close>.
\<close>

lemma sqrt_one_plus_sq_pos: "0 < sqrt (1 + (s::real)\<^sup>2)"
  by (simp add: add_pos_nonneg)

lemma hyp_factor:
  assumes "x \<noteq> 0"
  shows "sqrt (x\<^sup>2 + y\<^sup>2) = \<bar>x\<bar> * sqrt (1 + (y / x)\<^sup>2)"
proof -
  have "x\<^sup>2 + y\<^sup>2 = x\<^sup>2 * (1 + (y / x)\<^sup>2)"
    using assms by (simp add: field_simps)
  then show ?thesis
    by (simp add: real_sqrt_mult)
qed

lemma proj_cos:
  assumes "x \<noteq> 0"
  shows "sqrt (x\<^sup>2 + y\<^sup>2) * cos (arctan (y / x)) = \<bar>x\<bar>"
  using sqrt_one_plus_sq_pos [of "y / x"]
  by (simp add: hyp_factor [OF assms] cos_arctan)

lemma proj_sin:
  assumes "x \<noteq> 0"
  shows "sqrt (x\<^sup>2 + y\<^sup>2) * sin (arctan (y / x)) = (if x < 0 then - y else y)"
proof -
  have "sqrt (x\<^sup>2 + y\<^sup>2) * sin (arctan (y / x)) = \<bar>x\<bar> * (y / x)"
    using sqrt_one_plus_sq_pos [of "y / x"]
    by (simp add: hyp_factor [OF assms] sin_arctan)
  also have "\<dots> = (if x < 0 then - y else y)"
    using assms by (simp add: abs_if)
  finally show ?thesis .
qed

lemma cos_sub_pi: "cos (t - pi) = - cos (t::real)"
  by (simp add: cos_diff)

lemma sin_sub_pi: "sin (t - pi) = - sin (t::real)"
  by (simp add: sin_diff)

lemma sqrt_cos_atan2: "sqrt (x\<^sup>2 + y\<^sup>2) * cos (atan2 y x) = x"
proof (cases "x = 0")
  case True
  then show ?thesis by (simp add: atan2_def)
next
  case False
  then show ?thesis
    using proj_cos [OF False, of y]
    by (auto simp add: atan2_def cos_sub_pi)
qed

lemma sqrt_sin_atan2: "sqrt (x\<^sup>2 + y\<^sup>2) * sin (atan2 y x) = y"
proof (cases "x = 0")
  case True
  then show ?thesis by (simp add: atan2_def)
next
  case False
  then show ?thesis
    using proj_sin [OF False, of y]
    by (auto simp add: atan2_def sin_sub_pi)
qed

lemma vertical_cos: "sqrt (d\<^sup>2) * cos (pi / 2 * sgn d) = 0"
  by (simp add: sgn_real_def)

lemma vertical_sin: "sqrt (d\<^sup>2) * sin (pi / 2 * sgn d) = d"
  by (simp add: sgn_real_def)

section \<open>What each operation computes\<close>

lemma init_result:
  "init c v1 v2 a b iy ps =
     (if v1 = 0 \<or> v2 = 0 then Inl ZeroDivisionError
      else Inr \<lparr>speed_of_light = c, refractive_index_1 = c / v1, refractive_index_2 = c / v2,
                point_a = a, point_b = b, interface_y = iy, plane_size = ps\<rparr>)"
  by (simp add: init_def truediv_def)

lemma time_to_travel_result:
  "speed_of_light sim \<noteq> 0 \<Longrightarrow>
   time_to_travel sim x =
     Inr (sqrt ((x - fst (point_a sim))\<^sup>2 + (interface_y sim - snd (point_a sim))\<^sup>2)
            / speed_of_light sim * refractive_index_1 sim
          + sqrt ((fst (point_b sim) - x)\<^sup>2 + (snd (point_b sim) - interface_y sim)\<^sup>2)
            / speed_of_light sim * refractive_index_2 sim)"
  by (simp add: time_to_travel_def calculate_distance_and_incidence_angle_def np_divide_def
      Let_def)

lemma time_to_travel_zero:
  "speed_of_light sim = 0 \<Longrightarrow> time_to_travel sim x = Inl FloatingPointError"
  by (simp add: time_to_travel_def calculate_distance_and_incidence_angle_def np_divide_def
      Let_def)

lemma calculate_optimal_path_fixed: "calculate_optimal_path (fixed_answer r ok) sim = r"
  by (simp add: calculate_optimal_path_def fixed_answer_def)

lemma refraction_angle_result:
  "refractive_index_2 sim \<noteq> 0 \<Longrightarrow>
   refraction_angle sim t =
     Inr (arcsin (clip (refractive_index_1 sim / refractive_index_2 sim * sin t) (- 1) 1))"
  by (simp add: refraction_angle_def truediv_def asin_def clip_def Let_def)

lemma refraction_angle_zero:
  "refractive_index_2 sim = 0 \<Longrightarrow> refraction_angle sim t = Inl ZeroDivisionError"
  by (simp add: refraction_angle_def truediv_def)

lemma angle_to_horizontal_result:
  "angle_to_horizontal sim xo =
     Inr (if fst (point_b sim) \<noteq> xo
          then arctan ((snd (point_b sim) - interface_y sim) / (fst (point_b sim) - xo))
          else pi / 2 * sgn (snd (point_b sim) - interface_y sim))"
  by (simp add: angle_to_horizontal_def np_divide_def)

lemma exit_x:
  assumes "angle_to_horizontal sim xo = Inr ang"
  shows "xo + sqrt ((fst (point_b sim) - xo)\<^sup>2 + (snd (point_b sim) - interface_y sim)\<^sup>2)
              * cos ang
         = (if fst (point_b sim) < xo then 2 * xo - fst (point_b sim) else fst (point_b sim))"
proof (cases "fst (point_b sim) = xo")
  case True
  with assms have ang: "ang = pi / 2 * sgn (snd (point_b sim) - interface_y sim)"
    by (simp add: angle_to_horizontal_result)
  show ?thesis unfolding ang
    using True vertical_cos [of "snd (point_b sim) - interface_y sim"] by simp
next
  case False
  with assms have ang:
    "ang = arctan ((snd (point_b sim) - interface_y sim) / (fst (point_b sim) - xo))"
    by (simp add: angle_to_horizontal_result)
  from False have "fst (point_b sim) - xo \<noteq> 0" by simp
  from proj_cos [OF this, of "snd (point_b sim) - interface_y sim"] False
  show ?thesis unfolding ang by auto
qed

lemma exit_y:
  assumes "angle_to_horizontal sim xo = Inr ang"
  shows "interface_y sim
           + sqrt ((fst (point_b sim) - xo)\<^sup>2 + (snd (point_b sim) - interface_y sim)\<^sup>2)
             * sin ang
         = (if fst (point_b sim) < xo then 2 * interface_y sim - snd (point_b sim)
            else snd (point_b sim))"
proof (cases "fst (point_b sim) = xo")
  case True
  with assms have ang: "ang = pi / 2 * sgn (snd (point_b sim) - interface_y sim)"
    by (simp add: angle_to_horizontal_result)
  show ?thesis unfolding ang
    using True vertical_sin [of "snd (point_b sim) - interface_y sim"] by simp
next
  case False
  with assms have ang:
    "ang = arctan ((snd (point_b sim) - interface_y sim) / (fst (point_b sim) - xo))"
    by (simp add: angle_to_horizontal_result)
  from False have "fst (point_b sim) - xo \<noteq> 0" by simp
  from proj_sin [OF this, of "snd (point_b sim) - interface_y sim"] False
  show ?thesis unfolding ang by auto
qed

text \<open>
  The path, in closed form. Its second point is the crossing point. Its third point is
  what the projection from the crossing point reaches: B, or the mirror image of B
  through the crossing point when B lies to the left of it, where the arctangent of the
  slope has lost the quadrant.
\<close>

lemma calculate_path_result:
  assumes "refractive_index_2 sim \<noteq> 0"
  shows "calculate_path m sim =
     Inr [point_a sim,
          (calculate_optimal_path m sim, interface_y sim),
          (if fst (point_b sim) < calculate_optimal_path m sim
           then (2 * calculate_optimal_path m sim - fst (point_b sim),
                 2 * interface_y sim - snd (point_b sim))
           else point_b sim),
          point_b sim]"
proof -
  define xo where "xo = calculate_optimal_path m sim"
  obtain ang where ang: "angle_to_horizontal sim xo = Inr ang"
    by (simp add: angle_to_horizontal_result)
  have a: "fst (point_a sim)
             + sqrt ((xo - fst (point_a sim))\<^sup>2 + (interface_y sim - snd (point_a sim))\<^sup>2)
               * cos (atan2 (interface_y sim - snd (point_a sim)) (xo - fst (point_a sim)))
           = xo"
    by (simp add: sqrt_cos_atan2)
  show ?thesis
    unfolding calculate_path_def xo_def [symmetric]
    by (simp add: Let_def calculate_distance_and_incidence_angle_def
        refraction_angle_result [OF assms] ang a exit_x [OF ang] exit_y [OF ang] prod_eq_iff)
qed

lemma calculate_path_zero:
  "refractive_index_2 sim = 0 \<Longrightarrow> calculate_path m sim = Inl ZeroDivisionError"
  by (simp add: calculate_path_def Let_def calculate_distance_and_incidence_angle_def
      refraction_angle_zero)

lemma init_Inr:
  assumes "init c v1 v2 a b iy ps = Inr sim"
  shows "v1 \<noteq> 0" and "v2 \<noteq> 0"
    and "sim = \<lparr>speed_of_light = c, refractive_index_1 = c / v1, refractive_index_2 = c / v2,
                point_a = a, point_b = b, interface_y = iy, plane_size = ps\<rparr>"
  using assms by (auto simp add: init_result split: if_splits)

lemma init_index_2:
  assumes "init c v1 v2 a b iy ps = Inr sim" and "c \<noteq> 0"
  shows "refractive_index_2 sim \<noteq> 0"
  using init_Inr [OF assms(1)] assms(2) by simp

section \<open>Construction\<close>

text \<open>
  Claim C2 says that a simulator with a non-positive medium speed or a non-positive
  reference speed cannot be constructed: the constructor fails with an InvalidParameter
  error. The constructor has no such check. Here it accepts a negative medium speed, and
  a reference speed of zero.
\<close>

theorem init_accepts_non_positive_speeds:
  "init 1 (- 1) 1 (0, 10) (10, - 10) 0 (20, 20) =
     Inr \<lparr>speed_of_light = 1, refractive_index_1 = - 1, refractive_index_2 = 1,
          point_a = (0, 10), point_b = (10, - 10), interface_y = 0, plane_size = (20, 20)\<rparr>
   \<and> init 0 1 1 (0, 10) (10, - 10) 0 (20, 20) =
     Inr \<lparr>speed_of_light = 0, refractive_index_1 = 0, refractive_index_2 = 0,
          point_a = (0, 10), point_b = (10, - 10), interface_y = 0, plane_size = (20, 20)\<rparr>"
  by (simp add: init_def truediv_def)

text \<open>
  Claim C2, as the constructor behaves: it fails exactly when a medium speed is zero, with
  the ZeroDivisionError of the quotient that defines the refractive index; every other
  input, whatever the signs of the three speeds, yields a simulator whose indices are the
  quotients.
\<close>

theorem init_fails_on_zero_medium_speed_only:
  "init c v1 v2 a b iy ps =
     (if v1 = 0 \<or> v2 = 0 then Inl ZeroDivisionError
      else Inr \<lparr>speed_of_light = c, refractive_index_1 = c / v1, refractive_index_2 = c / v2,
                point_a = a, point_b = b, interface_y = iy, plane_size = ps\<rparr>)"
  by (simp add: init_def truediv_def)

section \<open>The optimal crossing\<close>

text \<open>
  Claim C3 says that \<open>calculate_optimal_path\<close> fails with an OptimizationFailure error
  when the minimizer has not converged, and never returns a non-converged answer. Here the
  minimizer reports failure with the estimate 0, and 0 is returned.
\<close>

theorem unconverged_answer_is_returned:
  "calculate_optimal_path (fixed_answer 0 False) symmetric_example = 0"
  by (simp add: calculate_optimal_path_def fixed_answer_def)

text \<open>
  Claim C3, as the method behaves: it returns the minimizer's final estimate for the
  objective \<open>time_to_travel\<close>, the start A.x and the bounds of the two abscissas, and
  the convergence flag of the answer has no influence on what is returned.
\<close>

theorem calculate_optimal_path_ignores_success:
  "calculate_optimal_path m sim =
     res_x (m (time_to_travel sim) (fst (point_a sim))
              (min (fst (point_a sim)) (fst (point_b sim)),
               max (fst (point_a sim)) (fst (point_b sim))))
   \<and> calculate_optimal_path (\<lambda>f x0 bounds. (m f x0 bounds)\<lparr>res_success := ok\<rparr>) sim
       = calculate_optimal_path m sim"
  by (simp add: calculate_optimal_path_def Let_def)

section \<open>The travel time\<close>

text \<open>
  Claim C6: for a simulator built with a reference speed \<open>c\<close> other than zero, the travel
  time through \<open>x\<close> is the first distance times the first refractive index over \<open>c\<close> plus
  the second distance times the second index over \<open>c\<close>, the indices being \<open>c\<close> over the
  medium speeds; that is the first distance over the first medium speed plus the second
  over the second; and a simulator built with another reference speed gives the same time.
\<close>

theorem time_to_travel_reference_speed_cancels:
  assumes "init c v1 v2 a b iy ps = Inr sim" and "c \<noteq> 0"
    and "init c' v1 v2 a b iy ps = Inr sim'" and "c' \<noteq> 0"
  shows "time_to_travel sim x =
           Inr (fst (calculate_distance_and_incidence_angle sim x) * refractive_index_1 sim / c
                + sqrt ((fst b - x)\<^sup>2 + (snd b - iy)\<^sup>2) * refractive_index_2 sim / c)
         \<and> refractive_index_1 sim = c / v1 \<and> refractive_index_2 sim = c / v2
         \<and> time_to_travel sim x =
             Inr (sqrt ((x - fst a)\<^sup>2 + (iy - snd a)\<^sup>2) / v1
                  + sqrt ((fst b - x)\<^sup>2 + (snd b - iy)\<^sup>2) / v2)
         \<and> time_to_travel sim' x = time_to_travel sim x"
proof -
  note s = init_Inr [OF assms(1)] and s' = init_Inr [OF assms(3)]
  have n: "refractive_index_1 sim = c / v1" "refractive_index_2 sim = c / v2"
    using s(3) by simp_all
  have l: "time_to_travel sim x =
           Inr (fst (calculate_distance_and_incidence_angle sim x) * refractive_index_1 sim / c
                + sqrt ((fst b - x)\<^sup>2 + (snd b - iy)\<^sup>2) * refractive_index_2 sim / c)"
    using s(3) assms(2)
    by (simp add: time_to_travel_result calculate_distance_and_incidence_angle_def Let_def)
  have t: "time_to_travel sim x =
           Inr (sqrt ((x - fst a)\<^sup>2 + (iy - snd a)\<^sup>2) / v1
                + sqrt ((fst b - x)\<^sup>2 + (snd b - iy)\<^sup>2) / v2)"
    using s assms(2) by (simp add: time_to_travel_result)
  have "time_to_travel sim' x =
           Inr (sqrt ((x - fst a)\<^sup>2 + (iy - snd a)\<^sup>2) / v1
                + sqrt ((fst b - x)\<^sup>2 + (snd b - iy)\<^sup>2) / v2)"
    using s' assms(4) by (simp add: time_to_travel_result)
  with t have e: "time_to_travel sim' x = time_to_travel sim x" by simp
  from l n t e show ?thesis by (intro conjI)
qed

theorem time_to_travel_reference_speed_cancels_witness:
  "init 3 2 2 (0, 10) (10, - 10) 0 (20, 20) = Inr symmetric_example \<and>
   time_to_travel symmetric_example 5 = Inr (sqrt 125 / 2 + sqrt 125 / 2) \<and>
   time_to_travel
     (symmetric_example\<lparr>speed_of_light := 7, refractive_index_1 := 7 / 2,
                         refractive_index_2 := 7 / 2\<rparr>) 5
     = time_to_travel symmetric_example 5"
proof -
  have i: "init 3 2 2 (0, 10) (10, - 10) 0 (20, 20) = Inr symmetric_example"
    by (simp add: init_result)
  have j: "init 7 2 2 (0, 10) (10, - 10) 0 (20, 20) =
    Inr (symmetric_example\<lparr>speed_of_light := 7, refractive_index_1 := 7 / 2,
                             refractive_index_2 := 7 / 2\<rparr>)"
    by (simp add: init_result)
  have c: "(3::real) \<noteq> 0" "(7::real) \<noteq> 0" by simp_all
  from time_to_travel_reference_speed_cancels [OF i c(1) j c(2), of 5] i
  show ?thesis by (simp add: calculate_distance_and_incidence_angle_def Let_def)
qed

section \<open>The crossing stays between the two abscissas\<close>

lemma start_clipped_respects_bounds: "respects_bounds start_clipped"
  by (simp add: respects_bounds_def start_clipped_def clip_def)

text \<open>
  Claim C7: with an optimizer that keeps its answer inside well-formed bounds,
  \<open>calculate_optimal_path\<close> returns the optimizer's answer for the start A.x and the
  bounds \<open>(min(A.x, B.x), max(A.x, B.x))\<close>; the answer lies in that closed interval; and
  when A.x equals B.x it is that abscissa.
\<close>

theorem calculate_optimal_path_within_bounds:
  assumes "respects_bounds m"
  shows "calculate_optimal_path m sim =
           res_x (m (time_to_travel sim) (fst (point_a sim))
                    (min (fst (point_a sim)) (fst (point_b sim)),
                     max (fst (point_a sim)) (fst (point_b sim))))
         \<and> min (fst (point_a sim)) (fst (point_b sim)) \<le> calculate_optimal_path m sim
         \<and> calculate_optimal_path m sim \<le> max (fst (point_a sim)) (fst (point_b sim))
         \<and> (fst (point_a sim) = fst (point_b sim) \<longrightarrow>
              calculate_optimal_path m sim = fst (point_a sim))"
proof -
  let ?lo = "min (fst (point_a sim)) (fst (point_b sim))"
  let ?hi = "max (fst (point_a sim)) (fst (point_b sim))"
  have e: "calculate_optimal_path m sim =
             res_x (m (time_to_travel sim) (fst (point_a sim)) (?lo, ?hi))"
    by (simp add: calculate_optimal_path_def Let_def)
  have "?lo \<le> ?hi" by simp
  with assms have b: "?lo \<le> res_x (m (time_to_travel sim) (fst (point_a sim)) (?lo, ?hi))
      \<and> res_x (m (time_to_travel sim) (fst (point_a sim)) (?lo, ?hi)) \<le> ?hi"
    unfolding respects_bounds_def by blast
  have d: "calculate_optimal_path m sim = fst (point_a sim)"
    if "fst (point_a sim) = fst (point_b sim)"
    using b that unfolding e by simp
  from e b d show ?thesis by simp
qed

theorem calculate_optimal_path_within_bounds_witness:
  "respects_bounds start_clipped \<and>
   calculate_optimal_path start_clipped symmetric_example = 0 \<and>
   (0::real) \<le> calculate_optimal_path start_clipped symmetric_example \<and>
   calculate_optimal_path start_clipped symmetric_example \<le> 10 \<and>
   calculate_optimal_path start_clipped (symmetric_example\<lparr>point_b := (0, - 10)\<rparr>) = 0"
proof -
  have r: "respects_bounds start_clipped" by (rule start_clipped_respects_bounds)
  from calculate_optimal_path_within_bounds [OF r, of symmetric_example]
    calculate_optimal_path_within_bounds [OF r, of "symmetric_example\<lparr>point_b := (0, - 10)\<rparr>"] r
  show ?thesis by (simp add: start_clipped_def clip_def)
qed

section \<open>The shape of the path\<close>

text \<open>
  Claim C4: for a simulator built with a reference speed other than zero, whatever the
  optimizer answers, \<open>calculate_path\<close> returns a path, of exactly four points, the first
  of which is A and the last of which is B.
\<close>

theorem calculate_path_four_points:
  assumes "init c v1 v2 a b iy ps = Inr sim" and "c \<noteq> 0"
  shows "\<exists>p. calculate_path m sim = Inr p \<and> length p = 4 \<and> p ! 0 = a \<and> p ! 3 = b"
proof -
  have "refractive_index_2 sim \<noteq> 0" using assms by (rule init_index_2)
  then show ?thesis
    using init_Inr(3) [OF assms(1)] by (simp add: calculate_path_result)
qed

theorem calculate_path_four_points_witness:
  "init 3 2 2 (0, 10) (10, - 10) 0 (20, 20) = Inr symmetric_example \<and>
   (\<exists>p. calculate_path start_clipped symmetric_example = Inr p \<and> length p = 4 \<and>
        p ! 0 = (0, 10) \<and> p ! 3 = (10, - 10))"
proof -
  have i: "init 3 2 2 (0, 10) (10, - 10) 0 (20, 20) = Inr symmetric_example"
    by (simp add: init_result)
  have "(3::real) \<noteq> 0" by simp
  from calculate_path_four_points [OF i this, of start_clipped] i show ?thesis by simp
qed

text \<open>
  Claim C1 says that both middle points of every path lie on the interface and share
  the crossing abscissa. Here the crossing is at 3; the third point is B itself, four
  below the interface and three to the right of the crossing.
\<close>

theorem third_point_off_the_interface:
  "calculate_path (fixed_answer 3 True)
     \<lparr>speed_of_light = 1, refractive_index_1 = 1, refractive_index_2 = 1,
      point_a = (0, 4), point_b = (6, - 4), interface_y = 0, plane_size = (10, 10)\<rparr>
   = Inr [(0, 4), (3, 0), (6, - 4), (6, - 4)]"
  by (simp add: calculate_path_result calculate_optimal_path_fixed)

text \<open>
  Claim C1, as the path is built: for a simulator built with a reference speed other
  than zero, the second point is the crossing point, the crossing abscissa at the height
  of the interface; the third point is at the height of the interface only when B is, and
  has the crossing abscissa only when B has.
\<close>

theorem middle_points:
  assumes "init c v1 v2 a b iy ps = Inr sim" and "c \<noteq> 0"
  shows "\<exists>p. calculate_path m sim = Inr p
           \<and> p ! 1 = (calculate_optimal_path m sim, iy)
           \<and> (snd (p ! 2) = iy \<longleftrightarrow> snd b = iy)
           \<and> (fst (p ! 2) = calculate_optimal_path m sim
                \<longleftrightarrow> fst b = calculate_optimal_path m sim)"
proof -
  have "refractive_index_2 sim \<noteq> 0" using assms by (rule init_index_2)
  then show ?thesis
    using init_Inr(3) [OF assms(1)] by (auto simp add: calculate_path_result)
qed

theorem middle_points_witness:
  "init 3 2 2 (0, 10) (10, - 10) 0 (20, 20) = Inr symmetric_example \<and>
   (\<exists>p. calculate_path (fixed_answer 5 True) symmetric_example = Inr p
      \<and> p ! 1 = (5, 0) \<and> snd (p ! 2) \<noteq> 0 \<and> fst (p ! 2) \<noteq> 5)"
proof -
  have i: "init 3 2 2 (0, 10) (10, - 10) 0 (20, 20) = Inr symmetric_example"
    by (simp add: init_result)
  have "(3::real) \<noteq> 0" by simp
  from middle_points [OF i this, of "fixed_answer 5 True"] i show ?thesis
    by (simp add: calculate_optimal_path_fixed)
qed

text \<open>
  Claim C10: for a simulator built with a reference speed other than zero, when B lies
  strictly to the right of the crossing the third point of the path is B, so that the
  last segment has no length; when B lies strictly to the left, the third point is the
  mirror image of B through the crossing point.
\<close>

theorem third_point_is_b_or_its_mirror_image:
  assumes "init c v1 v2 a b iy ps = Inr sim" and "c \<noteq> 0"
  shows "(calculate_optimal_path m sim < fst b \<longrightarrow>
            calculate_path m sim = Inr [a, (calculate_optimal_path m sim, iy), b, b])
       \<and> (fst b < calculate_optimal_path m sim \<longrightarrow>
            calculate_path m sim =
              Inr [a, (calculate_optimal_path m sim, iy),
                   (2 * calculate_optimal_path m sim - fst b, 2 * iy - snd b), b])"
proof -
  have "refractive_index_2 sim \<noteq> 0" using assms by (rule init_index_2)
  then show ?thesis
    using init_Inr(3) [OF assms(1)] by (simp add: calculate_path_result)
qed

theorem third_point_is_b_or_its_mirror_image_witness:
  "init 3 2 2 (0, 10) (10, - 10) 0 (20, 20) = Inr symmetric_example \<and>
   calculate_path (fixed_answer 5 True) symmetric_example
     = Inr [(0, 10), (5, 0), (10, - 10), (10, - 10)] \<and>
   init 3 2 2 (10, 10) (0, - 10) 0 (20, 20)
     = Inr (symmetric_example\<lparr>point_a := (10, 10), point_b := (0, - 10)\<rparr>) \<and>
   calculate_path (fixed_answer 5 True)
       (symmetric_example\<lparr>point_a := (10, 10), point_b := (0, - 10)\<rparr>)
     = Inr [(10, 10), (5, 0), (10, 10), (0, - 10)]"
proof -
  have i: "init 3 2 2 (0, 10) (10, - 10) 0 (20, 20) = Inr symmetric_example"
    by (simp add: init_result)
  have j: "init 3 2 2 (10, 10) (0, - 10) 0 (20, 20)
     = Inr (symmetric_example\<lparr>point_a := (10, 10), point_b := (0, - 10)\<rparr>)"
    by (simp add: init_result)
  have c: "(3::real) \<noteq> 0" by simp
  from third_point_is_b_or_its_mirror_image [OF i c, of "fixed_answer 5 True"]
    third_point_is_b_or_its_mirror_image [OF j c, of "fixed_answer 5 True"] i j
  show ?thesis by (simp add: calculate_optimal_path_fixed)
qed

section \<open>The two angles\<close>

text \<open>
  Claim C8 says that, the refraction sine being clamped, no input makes
  \<open>calculate_path\<close> raise. The constructor accepts a reference speed of zero; both
  refractive indices are then zero, and their quotient at line 142 raises before the
  clamp is reached.
\<close>

theorem zero_reference_speed_raises:
  "init 0 1 3 (0, 10) (10, - 10) 0 (20, 20)
     = Inr \<lparr>speed_of_light = 0, refractive_index_1 = 0, refractive_index_2 = 0,
            point_a = (0, 10), point_b = (10, - 10), interface_y = 0, plane_size = (20, 20)\<rparr>
   \<and> calculate_path start_clipped
       \<lparr>speed_of_light = 0, refractive_index_1 = 0, refractive_index_2 = 0,
        point_a = (0, 10), point_b = (10, - 10), interface_y = 0, plane_size = (20, 20)\<rparr>
     = Inl ZeroDivisionError"
  by (simp add: init_result calculate_path_zero)

text \<open>
  Claim C8, as the code behaves, in exact arithmetic: for every simulator the constructor
  builds and every incidence angle, the refraction sine that reaches the inverse sine lies
  in \<open>[-1, 1]\<close> and its inverse sine in \<open>[-pi/2, pi/2]\<close>. When the reference speed
  is not zero, nothing is raised, whatever the optimizer answers and however large the
  sine before clamping: the refraction angle is that inverse sine, and the path is A, the
  crossing point, the end of the projection from it, and B. When the reference speed is
  zero, the refraction angle and the path end in the ZeroDivisionError of line 142.
\<close>

theorem refraction_sine_is_clamped:
  assumes "init c v1 v2 a b iy ps = Inr sim"
  shows "- 1 \<le> clip (refractive_index_1 sim / refractive_index_2 sim * sin t) (- 1) 1
       \<and> clip (refractive_index_1 sim / refractive_index_2 sim * sin t) (- 1) 1 \<le> 1
       \<and> - (pi / 2)
           \<le> arcsin (clip (refractive_index_1 sim / refractive_index_2 sim * sin t) (- 1) 1)
       \<and> arcsin (clip (refractive_index_1 sim / refractive_index_2 sim * sin t) (- 1) 1)
           \<le> pi / 2
       \<and> refraction_angle sim t =
           (if c = 0 then Inl ZeroDivisionError
            else Inr (arcsin (clip (refractive_index_1 sim / refractive_index_2 sim * sin t)
                                   (- 1) 1)))
       \<and> calculate_path m sim =
           (if c = 0 then Inl ZeroDivisionError
            else Inr [a, (calculate_optimal_path m sim, iy),
                      (if fst b < calculate_optimal_path m sim
                       then (2 * calculate_optimal_path m sim - fst b, 2 * iy - snd b)
                       else b),
                      b])"
proof -
  let ?s = "clip (refractive_index_1 sim / refractive_index_2 sim * sin t) (- 1) 1"
  note s = init_Inr [OF assms]
  have z: "refractive_index_2 sim = 0 \<longleftrightarrow> c = 0" using s by simp
  have b: "- 1 \<le> ?s" "?s \<le> 1" by (simp_all add: clip_def)
  have a: "- (pi / 2) \<le> arcsin ?s" "arcsin ?s \<le> pi / 2"
    using arcsin_bounded [OF b] by blast+
  have r: "refraction_angle sim t =
           (if c = 0 then Inl ZeroDivisionError else Inr (arcsin ?s))"
    using z by (simp add: refraction_angle_result refraction_angle_zero)
  have g: "point_a sim = a" "point_b sim = b" "interface_y sim = iy"
    using s(3) by simp_all
  have p: "calculate_path m sim =
           (if c = 0 then Inl ZeroDivisionError
            else Inr [a, (calculate_optimal_path m sim, iy),
                      (if fst b < calculate_optimal_path m sim
                       then (2 * calculate_optimal_path m sim - fst b, 2 * iy - snd b)
                       else b),
                      b])"
  proof (cases "c = 0")
    case True
    with z have "refractive_index_2 sim = 0" by simp
    then show ?thesis using True by (simp add: calculate_path_zero)
  next
    case False
    with z have n: "refractive_index_2 sim \<noteq> 0" by simp
    show ?thesis unfolding calculate_path_result [OF n] g using False by simp
  qed
  from b a r p show ?thesis by (intro conjI)
qed

text \<open>
  The witness is a configuration of total internal reflection: the second medium three
  times as fast as the first, the ray from A straight down, so that the sine before
  clamping is \<open>-3\<close>.
\<close>

theorem refraction_sine_is_clamped_witness:
  "init 3 1 3 (0, 10) (10, - 10) 0 (20, 20)
     = Inr (symmetric_example\<lparr>refractive_index_1 := 3, refractive_index_2 := 1\<rparr>) \<and>
   snd (calculate_distance_and_incidence_angle
          (symmetric_example\<lparr>refractive_index_1 := 3, refractive_index_2 := 1\<rparr>) 0)
     = - (pi / 2) \<and>
   (3::real) / 1 * sin (- (pi / 2)) < - 1 \<and>
   refraction_angle (symmetric_example\<lparr>refractive_index_1 := 3, refractive_index_2 := 1\<rparr>)
     (- (pi / 2)) = Inr (- (pi / 2)) \<and>
   calculate_path (fixed_answer 0 True)
       (symmetric_example\<lparr>refractive_index_1 := 3, refractive_index_2 := 1\<rparr>)
     = Inr [(0, 10), (0, 0), (10, - 10), (10, - 10)]"
proof -
  have i: "init 3 1 3 (0, 10) (10, - 10) 0 (20, 20)
     = Inr (symmetric_example\<lparr>refractive_index_1 := 3, refractive_index_2 := 1\<rparr>)"
    by (simp add: init_result)
  have t: "snd (calculate_distance_and_incidence_angle
          (symmetric_example\<lparr>refractive_index_1 := 3, refractive_index_2 := 1\<rparr>) 0)
     = - (pi / 2)"
    by (simp add: calculate_distance_and_incidence_angle_def atan2_def)
  from refraction_sine_is_clamped [OF i, of "- (pi / 2)" "fixed_answer 0 True"] i t
  show ?thesis by (simp add: clip_def calculate_optimal_path_fixed)
qed

text \<open>
  Claim C9 says that the direction angle of a vertical second segment is a quarter turn
  up or down. Here B is the crossing point itself, on the interface, and the angle is 0.
\<close>

theorem vertical_angle_can_be_zero:
  "angle_to_horizontal (symmetric_example\<lparr>point_b := (0, 0)\<rparr>) 0 = Inr 0
   \<and> (0::real) \<noteq> pi / 2 \<and> (0::real) \<noteq> - (pi / 2)"
  by (simp add: angle_to_horizontal_def)

text \<open>
  Claim C9, as the angle is computed: no division by zero occurs, whatever the input;
  when B.x differs from the crossing abscissa the angle is the arctangent of the slope;
  when they are equal it is a quarter turn up if B is above the interface, a quarter turn
  down if B is below it, and 0 if B is on it.
\<close>

theorem angle_to_horizontal_cases:
  "angle_to_horizontal sim xo =
     Inr (if fst (point_b sim) \<noteq> xo
          then arctan ((snd (point_b sim) - interface_y sim) / (fst (point_b sim) - xo))
          else if interface_y sim < snd (point_b sim) then pi / 2
          else if snd (point_b sim) < interface_y sim then - (pi / 2)
          else 0)"
  by (simp add: angle_to_horizontal_def np_divide_def sgn_real_def)

section \<open>The symmetric configuration\<close>

text \<open>
  With equal speeds the travel time is the length of the broken line from A to B over the
  speed. For A at \<open>(0, 10)\<close> and B at \<open>(10, -10)\<close> that length is least at the crossing
  5, and only there.
\<close>

lemma legs_product:
  fixes y :: real
  defines "u \<equiv> sqrt (y\<^sup>2 + 100)" and "w \<equiv> sqrt ((10 - y)\<^sup>2 + 100)"
  shows "(u * w)\<^sup>2 = (100 + 10 * y - y\<^sup>2)\<^sup>2 + 100 * (2 * y - 10)\<^sup>2"
proof -
  have u: "u\<^sup>2 = y\<^sup>2 + 100" unfolding u_def by simp
  have w: "w\<^sup>2 = (10 - y)\<^sup>2 + 100" unfolding w_def by simp
  have "(u * w)\<^sup>2 = u\<^sup>2 * w\<^sup>2" by (simp add: power_mult_distrib)
  also have "\<dots> = (y\<^sup>2 + 100) * ((10 - y)\<^sup>2 + 100)" by (simp only: u w)
  also have "\<dots> = (100 + 10 * y - y\<^sup>2)\<^sup>2 + 100 * (2 * y - 10)\<^sup>2"
    by (simp add: power2_eq_square algebra_simps)
  finally show ?thesis .
qed

lemma legs_sum_square:
  fixes y :: real
  shows "(sqrt (y\<^sup>2 + 100) + sqrt ((10 - y)\<^sup>2 + 100))\<^sup>2
         = 500 + 2 * (sqrt (y\<^sup>2 + 100) * sqrt ((10 - y)\<^sup>2 + 100)
                      - (100 + 10 * y - y\<^sup>2))"
proof -
  have u: "(sqrt (y\<^sup>2 + 100))\<^sup>2 = y\<^sup>2 + 100" by simp
  have w: "(sqrt ((10 - y)\<^sup>2 + 100))\<^sup>2 = (10 - y)\<^sup>2 + 100" by simp
  have "(sqrt (y\<^sup>2 + 100) + sqrt ((10 - y)\<^sup>2 + 100))\<^sup>2
        = (sqrt (y\<^sup>2 + 100))\<^sup>2 + (sqrt ((10 - y)\<^sup>2 + 100))\<^sup>2
          + 2 * (sqrt (y\<^sup>2 + 100) * sqrt ((10 - y)\<^sup>2 + 100))"
    by (simp add: power2_sum)
  also have "\<dots> = (y\<^sup>2 + 100) + ((10 - y)\<^sup>2 + 100)
          + 2 * (sqrt (y\<^sup>2 + 100) * sqrt ((10 - y)\<^sup>2 + 100))"
    by (simp only: u w)
  also have "\<dots> = 500 + 2 * (sqrt (y\<^sup>2 + 100) * sqrt ((10 - y)\<^sup>2 + 100)
                               - (100 + 10 * y - y\<^sup>2))"
    by (simp add: power2_eq_square algebra_simps)
  finally show ?thesis .
qed

lemma legs_lower_bound:
  fixes y :: real
  shows "2 * sqrt 125 \<le> sqrt (y\<^sup>2 + 100) + sqrt ((10 - y)\<^sup>2 + 100)"
proof -
  let ?u = "sqrt (y\<^sup>2 + 100)" and ?w = "sqrt ((10 - y)\<^sup>2 + 100)"
  let ?k = "100 + 10 * y - y\<^sup>2"
  have nn: "0 \<le> ?u * ?w" by simp
  have "?k\<^sup>2 \<le> (?u * ?w)\<^sup>2"
    using legs_product [of y] by simp
  then have "?k \<le> ?u * ?w"
    using nn by (rule power2_le_imp_le)
  then have "500 \<le> (?u + ?w)\<^sup>2"
    by (simp add: legs_sum_square)
  moreover have "(2 * sqrt 125)\<^sup>2 = 500" by (simp add: power_mult_distrib)
  ultimately have "(2 * sqrt 125)\<^sup>2 \<le> (?u + ?w)\<^sup>2" by simp
  moreover have "0 \<le> ?u + ?w" by simp
  ultimately show ?thesis by (rule power2_le_imp_le)
qed

lemma legs_minimum_unique:
  fixes y :: real
  assumes "sqrt (y\<^sup>2 + 100) + sqrt ((10 - y)\<^sup>2 + 100) \<le> 2 * sqrt 125"
  shows "y = 5"
proof -
  let ?u = "sqrt (y\<^sup>2 + 100)" and ?w = "sqrt ((10 - y)\<^sup>2 + 100)"
  let ?k = "100 + 10 * y - y\<^sup>2"
  have nn: "0 \<le> ?u * ?w" by simp
  have "0 \<le> ?u + ?w" by simp
  with assms have "(?u + ?w)\<^sup>2 \<le> (2 * sqrt 125)\<^sup>2"
    by (simp only: power_mono)
  moreover have "(2 * sqrt 125)\<^sup>2 = 500" by (simp add: power_mult_distrib)
  ultimately have "(?u + ?w)\<^sup>2 \<le> 500" by simp
  then have le: "?u * ?w \<le> ?k" by (simp add: legs_sum_square)
  with nn have "(?u * ?w)\<^sup>2 \<le> ?k\<^sup>2" by (simp only: power_mono)
  then have "100 * (2 * y - 10)\<^sup>2 \<le> 0"
    using legs_product [of y] by simp
  then have "(2 * y - 10)\<^sup>2 \<le> 0" by simp
  then have "2 * y - 10 = 0" by (simp only: power2_less_eq_zero_iff)
  then show ?thesis by simp
qed

lemma symmetric_time:
  assumes "init c v v (0, 10) (10, - 10) 0 ps = Inr sim" and "c \<noteq> 0"
  shows "time_to_travel sim y = Inr ((sqrt (y\<^sup>2 + 100) + sqrt ((10 - y)\<^sup>2 + 100)) / v)"
  using init_Inr [OF assms(1)] assms(2)
  by (simp add: time_to_travel_result add_divide_distrib)

lemma symmetric_time_at_5:
  assumes "init c v v (0, 10) (10, - 10) 0 ps = Inr sim" and "c \<noteq> 0"
  shows "time_to_travel sim 5 = Inr (2 * sqrt 125 / v)"
  by (simp add: symmetric_time [OF assms])

lemma exact_minimum_is_5:
  assumes i: "init c v v (0, 10) (10, - 10) 0 ps = Inr sim" and c: "c \<noteq> 0" and v: "0 < v"
    and m: "exact_minimum (time_to_travel sim) (0, 10) r"
  shows "r = 5"
proof -
  from m obtain t where t: "time_to_travel sim r = Inr t"
    and least: "\<And>y u. 0 \<le> y \<Longrightarrow> y \<le> 10 \<Longrightarrow> time_to_travel sim y = Inr u \<Longrightarrow> t \<le> u"
    unfolding exact_minimum_def by auto
  have "t \<le> 2 * sqrt 125 / v"
    by (rule least [of 5]) (simp_all add: symmetric_time_at_5 [OF i c])
  moreover have "t = (sqrt (r\<^sup>2 + 100) + sqrt ((10 - r)\<^sup>2 + 100)) / v"
    using t by (simp add: symmetric_time [OF i c])
  ultimately have "sqrt (r\<^sup>2 + 100) + sqrt ((10 - r)\<^sup>2 + 100) \<le> 2 * sqrt 125"
    using v by (simp add: divide_le_cancel)
  then show ?thesis by (rule legs_minimum_unique)
qed

lemma five_is_exact_minimum:
  assumes i: "init c v v (0, 10) (10, - 10) 0 ps = Inr sim" and c: "c \<noteq> 0" and v: "0 < v"
  shows "exact_minimum (time_to_travel sim) (0, 10) 5"
proof -
  have "2 * sqrt 125 / v \<le> (sqrt (y\<^sup>2 + 100) + sqrt ((10 - y)\<^sup>2 + 100)) / v" for y
    using legs_lower_bound [of y] v by (simp add: divide_le_cancel)
  then show ?thesis
    unfolding exact_minimum_def
    by (auto simp add: symmetric_time [OF i c] simp del: real_sqrt_le_iff)
qed

text \<open>
  Claim C5 says that in this configuration the crossing is 5 and both middle points of
  the path are \<open>(5, 0)\<close>. Here the optimizer answers 5; the third point of the path is
  B, not \<open>(5, 0)\<close>.
\<close>

theorem symmetric_third_point_is_b:
  "main_py (fixed_answer 5 True) 3 2 2 (0, 10) (10, - 10) 0 (20, 20)
     = Inr [(0, 10), (5, 0), (10, - 10), (10, - 10)]"
  by (simp add: main_py_def init_result calculate_path_result calculate_optimal_path_fixed)

text \<open>
  Claim C5, as the code behaves: for A at \<open>(0, 10)\<close>, B at \<open>(10, -10)\<close>, the interface at
  0, equal positive medium speeds and a reference speed other than zero, when the
  optimizer answers an exact minimum of the travel time over the bounds \<open>(0, 10)\<close>,
  \<open>calculate_optimal_path\<close> returns 5, the second point of the path is \<open>(5, 0)\<close> and
  the third is B.
\<close>

theorem symmetric_crossing:
  assumes "init c v v (0, 10) (10, - 10) 0 ps = Inr sim" and "c \<noteq> 0" and "0 < v"
    and "exact_minimum (time_to_travel sim) (0, 10) (res_x (m (time_to_travel sim) 0 (0, 10)))"
  shows "calculate_optimal_path m sim = 5
       \<and> calculate_path m sim = Inr [(0, 10), (5, 0), (10, - 10), (10, - 10)]"
proof -
  note s = init_Inr(3) [OF assms(1)]
  have "calculate_optimal_path m sim = res_x (m (time_to_travel sim) 0 (0, 10))"
    using s by (simp add: calculate_optimal_path_def)
  with assms(4) have "exact_minimum (time_to_travel sim) (0, 10) (calculate_optimal_path m sim)"
    by simp
  with assms(1-3) have x: "calculate_optimal_path m sim = 5" by (rule exact_minimum_is_5)
  have n: "refractive_index_2 sim \<noteq> 0" using assms(1,2) by (rule init_index_2)
  have g: "point_a sim = (0, 10)" "point_b sim = (10, - 10)" "interface_y sim = 0"
    using s by simp_all
  have "calculate_path m sim = Inr [(0, 10), (5, 0), (10, - 10), (10, - 10)]"
    unfolding calculate_path_result [OF n] x g by simp
  with x show ?thesis by simp
qed

theorem symmetric_crossing_witness:
  "init 3 2 2 (0, 10) (10, - 10) 0 (20, 20) = Inr symmetric_example \<and>
   exact_minimum (time_to_travel symmetric_example) (0, 10)
     (res_x (fixed_answer 5 True (time_to_travel symmetric_example) 0 (0, 10))) \<and>
   calculate_optimal_path (fixed_answer 5 True) symmetric_example = 5 \<and>
   calculate_path (fixed_answer 5 True) symmetric_example
     = Inr [(0, 10), (5, 0), (10, - 10), (10, - 10)]"
proof -
  have i: "init 3 2 2 (0, 10) (10, - 10) 0 (20, 20) = Inr symmetric_example"
    by (simp add: init_result)
  have c: "(3::real) \<noteq> 0" and v: "(0::real) < 2" by simp_all
  have e: "exact_minimum (time_to_travel symmetric_example) (0, 10)
     (res_x (fixed_answer 5 True (time_to_travel symmetric_example) 0 (0, 10)))"
    using five_is_exact_minimum [OF i c v] by (simp add: fixed_answer_def)
  from symmetric_crossing [where m = "fixed_answer 5 True", OF i c v e] i e
  show ?thesis by (intro conjI) simp_all
qed

end
